theory Spec2Isabelle
  imports Main "HOL-Library.Word" "HOL-Library.Product_Lexorder" "HOL-Library.Multiset"
begin

section \<open>JavaScript strings\<close>

text \<open>
  A JavaScript string is a sequence of UTF-16 code units: \<^verbatim>\<open>str.length\<close> counts units,
  \<^verbatim>\<open>str.charCodeAt(i)\<close> reads unit \<open>i\<close> as a number in \<open>0..65535\<close> and \<^verbatim>\<open>str[i]\<close> is the
  one-unit string at \<open>i\<close>. A character beyond U+FFFF occupies two units (a surrogate
  pair). \<open>js\<close> writes an ASCII literal of the source as such a string.
\<close>

type_synonym jsstring = "16 word list"

definition js :: "string \<Rightarrow> jsstring" where
  "js s = map (\<lambda>c. of_nat (of_char c)) s"

text \<open>
  \<^verbatim>\<open>'&#' + c + ';'\<close> converts the number \<open>c\<close> to its decimal numeral (no sign, no leading
  zero: \<open>c\<close> is a code unit).
\<close>

definition digit :: "nat \<Rightarrow> 16 word" where
  "digit d = of_nat (48 + d)"

fun decimal :: "nat \<Rightarrow> jsstring" where
  "decimal n =
     (if n < 10 then [digit n]
      else decimal (n div 10) @ [digit (n mod 10)])"

declare decimal.simps [simp del]

section \<open>convertUnicodeCharsToHtml (embellij.js, lines 59-76)\<close>

text \<open>
  The \<^verbatim>\<open>while (i < strLength)\<close> loop, with its two variables \<open>i\<close> and \<open>result\<close>. Both
  branches advance \<open>i\<close> by one.
\<close>

function convertLoop :: "jsstring \<Rightarrow> nat \<Rightarrow> jsstring \<Rightarrow> jsstring" where
  "convertLoop str i result =
     (if i < length str then
        (let c = unat (str ! i) in
         if c \<le> 127 then convertLoop str (i + 1) (result @ [str ! i])
         else convertLoop str (i + 1) (result @ js ''&#'' @ decimal c @ js '';''))
      else result)"
  by pat_completeness auto
termination
  by (relation "measure (\<lambda>(str, i, result). length str - i)") auto

declare convertLoop.simps [simp del]

definition convertUnicodeCharsToHtml :: "jsstring \<Rightarrow> jsstring" where
  "convertUnicodeCharsToHtml str =
     (if length str = 0 then [] else convertLoop str 0 [])"

text \<open>What one iteration appends for the unit it reads.\<close>

definition escapeUnit :: "16 word \<Rightarrow> jsstring" where
  "escapeUnit u = (if unat u \<le> 127 then [u] else js ''&#'' @ decimal (unat u) @ js '';'')"

subsection \<open>The claim's reading: characters and their code points\<close>

text \<open>
  The characters of a string are its Unicode code points, as \<^verbatim>\<open>codePointAt\<close> and the
  string iterator decode them: a high surrogate followed by a low surrogate is one
  character beyond U+FFFF, every other unit is the character of that number.
\<close>

definition isHighSurrogate :: "16 word \<Rightarrow> bool" where
  "isHighSurrogate u = (0xD800 \<le> unat u \<and> unat u \<le> 0xDBFF)"

definition isLowSurrogate :: "16 word \<Rightarrow> bool" where
  "isLowSurrogate u = (0xDC00 \<le> unat u \<and> unat u \<le> 0xDFFF)"

fun codePoints :: "jsstring \<Rightarrow> nat list" where
  "codePoints [] = []"
| "codePoints [u] = [unat u]"
| "codePoints (h # l # r) =
     (if isHighSurrogate h \<and> isLowSurrogate l
      then (0x10000 + (unat h - 0xD800) * 0x400 + (unat l - 0xDC00)) # codePoints r
      else unat h # codePoints (l # r))"

text \<open>
  The escaping the specification describes: each character above code point 127 becomes
  its numeric character reference, each ASCII character stays.
\<close>

definition escapeCodePoint :: "nat \<Rightarrow> jsstring" where
  "escapeCodePoint cp = (if cp \<le> 127 then [of_nat cp] else js ''&#'' @ decimal cp @ js '';'')"

definition escapeNonAscii_spec :: "jsstring \<Rightarrow> jsstring" where
  "escapeNonAscii_spec s = concat (map escapeCodePoint (codePoints s))"

section \<open>Pages (the data model of embellij.js, lines 104-123)\<close>

text \<open>
  The values a page's \<^verbatim>\<open>modified\<close> and \<^verbatim>\<open>writeTime\<close> hold. \<^verbatim>\<open>defaultPage\<close> has neither
  property (\<open>Undefined\<close>). \<^verbatim>\<open>getModifiedDate\<close> returns a \<^verbatim>\<open>Date\<close> object (\<open>DateObj t\<close>, \<open>t\<close> in
  milliseconds since the epoch). \<^verbatim>\<open>JSON.stringify\<close> writes a \<^verbatim>\<open>Date\<close> as its
  \<^verbatim>\<open>toISOString()\<close> text, which keeps the milliseconds, and \<^verbatim>\<open>JSON.parse\<close> reads it
  back as a string (\<open>IsoString t\<close>).
\<close>

datatype timeval = Undefined | DateObj int | IsoString int

text \<open>
  A page object. \<^verbatim>\<open>filename\<close> is \<^verbatim>\<open>null\<close> in \<^verbatim>\<open>defaultPage\<close> and assigned before it is
  read; \<^verbatim>\<open>null\<close> is \<open>None\<close> in \<open>slug\<close>, \<open>sortKey\<close> and \<open>maxSubpages\<close>. \<open>props\<close> holds
  the numeric properties that front matter adds beside the named ones (an index page
  sorts on one of them by name). \<^verbatim>\<open>date\<close> and \<^verbatim>\<open>dateFormatString\<close> are left out: the
  code only normalises and reformats them, and no other field depends on them.
\<close>

datatype page = Page
  (template: jsstring)
  (filename: jsstring)
  (checksum: jsstring)
  (excerpt: jsstring)
  (content: jsstring)
  (title: jsstring)
  (category: jsstring)
  (relSiteUrl: jsstring)
  (slug: "jsstring option")
  (url: jsstring)
  (target: jsstring)
  (index: bool)
  (sortKey: "jsstring option")
  (sortReverse: bool)
  (subpages: "page list")
  (maxSubpages: "int option")
  (modified: timeval)
  (writeTime: timeval)
  (props: "(jsstring \<times> int) list")

definition defaultPage :: page where
  "defaultPage = Page (js ''default.pug'') [] [] [] [] [] [] [] None [] [] False None True []
     None Undefined Undefined []"

text \<open>Assignments to one property of a page.\<close>

definition set_filename :: "jsstring \<Rightarrow> page \<Rightarrow> page" where
  "set_filename v p = Page (template p) v (checksum p) (excerpt p) (content p) (title p)
     (category p) (relSiteUrl p) (slug p) (url p) (target p) (index p) (sortKey p)
     (sortReverse p) (subpages p) (maxSubpages p) (modified p) (writeTime p) (props p)"

definition set_content :: "jsstring \<Rightarrow> page \<Rightarrow> page" where
  "set_content v p = Page (template p) (filename p) (checksum p) (excerpt p) v (title p)
     (category p) (relSiteUrl p) (slug p) (url p) (target p) (index p) (sortKey p)
     (sortReverse p) (subpages p) (maxSubpages p) (modified p) (writeTime p) (props p)"

definition set_relSiteUrl :: "jsstring \<Rightarrow> page \<Rightarrow> page" where
  "set_relSiteUrl v p = Page (template p) (filename p) (checksum p) (excerpt p) (content p)
     (title p) (category p) v (slug p) (url p) (target p) (index p) (sortKey p)
     (sortReverse p) (subpages p) (maxSubpages p) (modified p) (writeTime p) (props p)"

definition set_slug :: "jsstring option \<Rightarrow> page \<Rightarrow> page" where
  "set_slug v p = Page (template p) (filename p) (checksum p) (excerpt p) (content p)
     (title p) (category p) (relSiteUrl p) v (url p) (target p) (index p) (sortKey p)
     (sortReverse p) (subpages p) (maxSubpages p) (modified p) (writeTime p) (props p)"

definition set_url :: "jsstring \<Rightarrow> page \<Rightarrow> page" where
  "set_url v p = Page (template p) (filename p) (checksum p) (excerpt p) (content p)
     (title p) (category p) (relSiteUrl p) (slug p) v (target p) (index p) (sortKey p)
     (sortReverse p) (subpages p) (maxSubpages p) (modified p) (writeTime p) (props p)"

definition set_target :: "jsstring \<Rightarrow> page \<Rightarrow> page" where
  "set_target v p = Page (template p) (filename p) (checksum p) (excerpt p) (content p)
     (title p) (category p) (relSiteUrl p) (slug p) (url p) v (index p) (sortKey p)
     (sortReverse p) (subpages p) (maxSubpages p) (modified p) (writeTime p) (props p)"

definition set_subpages :: "page list \<Rightarrow> page \<Rightarrow> page" where
  "set_subpages v p = Page (template p) (filename p) (checksum p) (excerpt p) (content p)
     (title p) (category p) (relSiteUrl p) (slug p) (url p) (target p) (index p) (sortKey p)
     (sortReverse p) v (maxSubpages p) (modified p) (writeTime p) (props p)"

definition set_modified :: "timeval \<Rightarrow> page \<Rightarrow> page" where
  "set_modified v p = Page (template p) (filename p) (checksum p) (excerpt p) (content p)
     (title p) (category p) (relSiteUrl p) (slug p) (url p) (target p) (index p) (sortKey p)
     (sortReverse p) (subpages p) (maxSubpages p) v (writeTime p) (props p)"

definition set_writeTime :: "timeval \<Rightarrow> page \<Rightarrow> page" where
  "set_writeTime v p = Page (template p) (filename p) (checksum p) (excerpt p) (content p)
     (title p) (category p) (relSiteUrl p) (slug p) (url p) (target p) (index p) (sortKey p)
     (sortReverse p) (subpages p) (maxSubpages p) (modified p) v (props p)"

text \<open>\<^verbatim>\<open>page[key]\<close> for a numeric property added by front matter; \<open>None\<close> is \<^verbatim>\<open>undefined\<close>.\<close>

definition pageProp :: "page \<Rightarrow> jsstring \<Rightarrow> int option" where
  "pageProp p key = map_of (props p) key"

text \<open>
  Truthiness, as \<^verbatim>\<open>if (x)\<close> and \<^verbatim>\<open>!x\<close> test it: the empty string, \<^verbatim>\<open>null\<close> and \<open>0\<close> are
  falsy.
\<close>

definition truthy :: "jsstring \<Rightarrow> bool" where
  "truthy s = (s \<noteq> [])"

definition truthyOpt :: "jsstring option \<Rightarrow> bool" where
  "truthyOpt v = (case v of None \<Rightarrow> False | Some s \<Rightarrow> s \<noteq> [])"

text \<open>
  The site object that \<^verbatim>\<open>main\<close> builds (lines 316-333). The source reads \<^verbatim>\<open>site.forced\<close>
  in \<^verbatim>\<open>processSite\<close>, a property that \<^verbatim>\<open>main\<close> never sets: \<open>forced\<close> is \<open>False\<close> for
  \<^verbatim>\<open>undefined\<close>, and \<open>True\<close> only if a configuration file supplies a property of that name.
\<close>

record site =
  siteUrl :: jsstring
  outputDir :: jsstring
  files :: "jsstring list"
  contentDir :: jsstring
  pages :: "page list"
  templateDir :: jsstring
  mediaDir :: jsstring
  cachedPages :: jsstring
  readExts :: "jsstring list"
  writeExt :: jsstring
  dateFormatString :: jsstring
  recursive :: bool
  force :: bool
  forced :: bool

definition mainSite :: "bool \<Rightarrow> bool \<Rightarrow> site" where
  "mainSite parsed_recursive parsed_force =
     \<lparr> siteUrl = [], outputDir = js ''.'', files = [], contentDir = [], pages = [],
       templateDir = js ''.'', mediaDir = js ''.'', cachedPages = [],
       readExts = [js ''.md'', js ''.txt'', js ''.mkd'', js ''.markdown''],
       writeExt = js ''.html'', dateFormatString = js ''fullDate'',
       recursive = parsed_recursive, force = parsed_force, forced = False \<rparr>"

section \<open>The lodash calls of generateIndexableSubpages\<close>

text \<open>
  \<^verbatim>\<open>_.omitBy\<close> applied to an array returns a plain object keyed by the positions of the
  elements it keeps, not an array; \<^verbatim>\<open>_.filter\<close> and \<^verbatim>\<open>_.sortBy\<close> iterate its values in key
  order and return arrays. \<open>Obj\<close> holds the values of such an object in key order.
\<close>

datatype 'a collection = Arr "'a list" | Obj "'a list"

definition elems :: "'a collection \<Rightarrow> 'a list" where
  "elems c = (case c of Arr xs \<Rightarrow> xs | Obj xs \<Rightarrow> xs)"

text \<open>\<^verbatim>\<open>_.omitBy(site.pages, {index: true})\<close>\<close>

definition omitBy_index :: "page list \<Rightarrow> page collection" where
  "omitBy_index ps = Obj (filter (\<lambda>q. \<not> index q) ps)"

text \<open>\<^verbatim>\<open>_.filter(subpages, {category: c})\<close>: the property is compared with \<^verbatim>\<open>===\<close>.\<close>

definition filter_category :: "page collection \<Rightarrow> jsstring \<Rightarrow> page collection" where
  "filter_category c cat = Arr (filter (\<lambda>q. category q = cat) (elems c))"

text \<open>
  \<^verbatim>\<open>compareAscending\<close> of lodash on numbers and \<^verbatim>\<open>undefined\<close>: \<^verbatim>\<open>undefined\<close> sorts after
  every number.
\<close>

definition compareAscending :: "int option \<Rightarrow> int option \<Rightarrow> int" where
  "compareAscending a b =
     (case (a, b) of
        (Some x, Some y) \<Rightarrow> (if x > y then 1 else if x < y then -1 else 0)
      | (None, Some y) \<Rightarrow> 1
      | (Some x, None) \<Rightarrow> -1
      | (None, None) \<Rightarrow> 0)"

text \<open>
  \<^verbatim>\<open>_.sortBy(collection, key)\<close> is \<^verbatim>\<open>baseOrderBy\<close>: each element is paired with its
  criterion and its position, the pairs are sorted with \<^verbatim>\<open>compareMultiple\<close> (the
  criteria first, then the positions, so no two entries compare equal), and the
  elements are read back. The native \<^verbatim>\<open>Array.prototype.sort\<close> is given by insertion.
\<close>

definition compareMultiple :: "int option \<times> nat \<times> 'a \<Rightarrow> int option \<times> nat \<times> 'a \<Rightarrow> int" where
  "compareMultiple a b =
     (let r = compareAscending (fst a) (fst b)
      in if r \<noteq> 0 then r else int (fst (snd a)) - int (fst (snd b)))"

fun insertBy :: "('a \<Rightarrow> 'a \<Rightarrow> int) \<Rightarrow> 'a \<Rightarrow> 'a list \<Rightarrow> 'a list" where
  "insertBy cmp x [] = [x]"
| "insertBy cmp x (y # ys) = (if cmp x y \<le> 0 then x # y # ys else y # insertBy cmp x ys)"

definition arraySort :: "('a \<Rightarrow> 'a \<Rightarrow> int) \<Rightarrow> 'a list \<Rightarrow> 'a list" where
  "arraySort cmp xs = foldr (insertBy cmp) xs []"

fun decorate :: "jsstring \<Rightarrow> nat \<Rightarrow> page list \<Rightarrow> (int option \<times> nat \<times> page) list" where
  "decorate key n [] = []"
| "decorate key n (q # qs) = (pageProp q key, n, q) # decorate key (Suc n) qs"

definition sortBy :: "page collection \<Rightarrow> jsstring \<Rightarrow> page collection" where
  "sortBy c key = Arr (map (\<lambda>e. snd (snd e)) (arraySort compareMultiple (decorate key 0 (elems c))))"

text \<open>
  \<^verbatim>\<open>_.reverse\<close> reverses an array in place; on an object without \<^verbatim>\<open>length\<close> it changes
  nothing. \<^verbatim>\<open>_.take(array, n)\<close> returns \<^verbatim>\<open>[]\<close> for a value without \<^verbatim>\<open>length\<close>, and takes
  no element for a negative \<open>n\<close>.
\<close>

definition reverse :: "'a collection \<Rightarrow> 'a collection" where
  "reverse c = (case c of Arr xs \<Rightarrow> Arr (rev xs) | Obj xs \<Rightarrow> Obj xs)"

definition take_n :: "'a collection \<Rightarrow> int \<Rightarrow> 'a collection" where
  "take_n c n = (case c of Arr xs \<Rightarrow> Arr (take (nat n) xs) | Obj xs \<Rightarrow> Arr [])"

section \<open>generateIndexableSubpages (lines 191-212)\<close>

text \<open>
  The body of \<^verbatim>\<open>if (page.index)\<close>: the value assigned to \<^verbatim>\<open>page.subpages\<close>, computed from
  the pages of the site as they are at that iteration. The field keeps the elements of
  the collection (an object, when neither the filter nor the sort ran).
\<close>

definition indexableSubpages :: "page list \<Rightarrow> page \<Rightarrow> page list" where
  "indexableSubpages ps page =
     (let s0 = omitBy_index ps;
          s1 = (if truthy (category page) then filter_category s0 (category page) else s0);
          s2 = (case sortKey page of
                  None \<Rightarrow> s1
                | Some key \<Rightarrow>
                    if truthy key
                    then (let s = sortBy s1 key in if sortReverse page then reverse s else s)
                    else s1);
          s3 = (case maxSubpages page of
                  None \<Rightarrow> s2
                | Some n \<Rightarrow> if n \<noteq> 0 then take_n s2 n else s2)
      in elems s3)"

text \<open>One iteration of \<^verbatim>\<open>for (let page of site.pages)\<close>, at position \<open>i\<close>, and the loop.\<close>

definition generateStep :: "nat \<Rightarrow> page list \<Rightarrow> page list" where
  "generateStep i ps =
     (let page = ps ! i
      in if index page then ps[i := set_subpages (indexableSubpages ps page) page] else ps)"

definition generateIndexableSubpages :: "site \<Rightarrow> site" where
  "generateIndexableSubpages st =
     st\<lparr>pages := fold generateStep [0..<length (pages st)] (pages st)\<rparr>"

subsection \<open>The claim's reading of the aggregation\<close>

text \<open>
  The subpages the specification describes for an index page with category \<open>C\<close>, sort key
  \<open>key\<close>, descending order and cap \<open>k\<close>: the pages of category \<open>C\<close> (index pages apart),
  sorted by descending value with equal values kept in discovery order (a stable sort
  on the negated value), cut to the first \<open>k\<close>.
\<close>

definition claimed_subpages :: "jsstring \<Rightarrow> jsstring \<Rightarrow> nat \<Rightarrow> page list \<Rightarrow> page list" where
  "claimed_subpages C key k ps =
     take k (sort_key (\<lambda>q. - the (pageProp q key)) (filter (\<lambda>q. \<not> index q \<and> category q = C) ps))"

section \<open>Time stamps and their comparison\<close>

text \<open>
  \<^verbatim>\<open>Date.parse(x)\<close> converts its argument to a string and parses that string; \<open>None\<close> is
  \<^verbatim>\<open>NaN\<close>. For \<^verbatim>\<open>undefined\<close> the result is \<^verbatim>\<open>NaN\<close>. For the ISO text of a cached value it
  is the instant, to the millisecond. For a \<^verbatim>\<open>Date\<close> object the string is that of
  \<^verbatim>\<open>Date.prototype.toString\<close>, which prints whole seconds only (the language standard
  promises \<^verbatim>\<open>Date.parse(x.toString()) = x.valueOf()\<close> just for dates whose millisecond
  part is zero): the result is the instant cut to the second.
\<close>

definition Date_parse :: "timeval \<Rightarrow> int option" where
  "Date_parse v =
     (case v of
        Undefined \<Rightarrow> None
      | DateObj t \<Rightarrow> Some (t div 1000 * 1000)
      | IsoString t \<Rightarrow> Some t)"

text \<open>\<^verbatim>\<open>!=\<close>, \<^verbatim>\<open>==\<close> and \<^verbatim>\<open>>=\<close> on numbers: every comparison with \<^verbatim>\<open>NaN\<close> is false, so \<^verbatim>\<open>!=\<close> is true.\<close>

definition js_ne :: "int option \<Rightarrow> int option \<Rightarrow> bool" where
  "js_ne a b = (case (a, b) of (Some x, Some y) \<Rightarrow> x \<noteq> y | _ \<Rightarrow> True)"

definition js_eq :: "int option \<Rightarrow> int option \<Rightarrow> bool" where
  "js_eq a b = (case (a, b) of (Some x, Some y) \<Rightarrow> x = y | _ \<Rightarrow> False)"

definition js_ge :: "int option \<Rightarrow> int option \<Rightarrow> bool" where
  "js_ge a b = (case (a, b) of (Some x, Some y) \<Rightarrow> x \<ge> y | _ \<Rightarrow> False)"



section \<open>The file system and the libraries\<close>

text \<open>
  What a path holds: the text of a file, the page records of a cache file (the JSON
  text, up to serialisation), or a directory; with its modification time in
  milliseconds. \<open>writable\<close> tells where \<^verbatim>\<open>ensureDirSync\<close> and \<^verbatim>\<open>writeFileSync\<close> succeed;
  \<open>clock\<close> is the time stamped on what the run writes. Directories created by
  \<^verbatim>\<open>ensureDirSync\<close> are not recorded, and the asynchronous \<^verbatim>\<open>fs.copy\<close> of the media
  directory (line 287) is outside the model.
\<close>

datatype fdata = Text jsstring | Json "page list" | Directory

record entry =
  mtime :: int
  data :: fdata

record world =
  entries :: "jsstring \<Rightarrow> entry option"
  writable :: "jsstring \<Rightarrow> bool"
  clock :: int

datatype error =
    ENOENT jsstring
  | EISDIR jsstring
  | EACCES jsstring
  | YAMLException jsstring
  | SyntaxError jsstring
  | PugError jsstring

text \<open>
  The entry of a path, if there is one; \<^verbatim>\<open>fs.statSync\<close> and \<^verbatim>\<open>fs.lstatSync\<close> throw where
  there is none, and \<^verbatim>\<open>isFile\<close> (lines 32-39) catches that. No entry is found under the
  empty path.
\<close>

definition statSync :: "world \<Rightarrow> jsstring \<Rightarrow> entry option" where
  "statSync w f = (if f = [] then None else entries w f)"

definition isFile :: "world \<Rightarrow> jsstring \<Rightarrow> bool" where
  "isFile w f = (case statSync w f of None \<Rightarrow> False | Some e \<Rightarrow> data e \<noteq> Directory)"

definition existsSync :: "world \<Rightarrow> jsstring \<Rightarrow> bool" where
  "existsSync w f = (statSync w f \<noteq> None)"

definition getModifiedDate :: "world \<Rightarrow> jsstring \<Rightarrow> error + timeval" where
  "getModifiedDate w f =
     (case statSync w f of None \<Rightarrow> Inl (ENOENT f) | Some e \<Rightarrow> Inr (DateObj (mtime e)))"

definition readFileSync :: "world \<Rightarrow> jsstring \<Rightarrow> error + fdata" where
  "readFileSync w f =
     (case statSync w f of
        None \<Rightarrow> Inl (ENOENT f)
      | Some e \<Rightarrow> if data e = Directory then Inl (EISDIR f) else Inr (data e))"

definition writeFileSync :: "world \<Rightarrow> jsstring \<Rightarrow> fdata \<Rightarrow> error + world" where
  "writeFileSync w f d =
     (if \<not> writable w f \<or> f = [] then Inl (EACCES f)
      else if (case entries w f of None \<Rightarrow> False | Some e \<Rightarrow> data e = Directory)
      then Inl (EISDIR f)
      else Inr (w\<lparr>entries := (entries w)(f \<mapsto> \<lparr>mtime = clock w, data = d\<rparr>)\<rparr>))"

text \<open>
  The parsed front matter of a source file: \<open>assign\<close> is the overlay of its metadata
  fields on a page (what \<^verbatim>\<open>_.assign\<close> does with them), \<open>body\<close> the text under the key
  \<^verbatim>\<open>content\<close>.
\<close>

record front =
  assign :: "page \<Rightarrow> page"
  body :: jsstring

text \<open>
  The libraries the pipeline calls, none of them part of the repository: node's \<^verbatim>\<open>path\<close>,
  \<^verbatim>\<open>globule.find\<close>, \<^verbatim>\<open>slug\<close>, \<^verbatim>\<open>normalize\<close>, the commonmark parser and renderer,
  \<^verbatim>\<open>yamlFront.loadFront\<close> (\<open>None\<close>: it throws) and the compiled pug template applied to
  \<^verbatim>\<open>{page, site}\<close> (\<open>None\<close>: it throws). \<open>script_dirname\<close> is \<^verbatim>\<open>__dirname\<close>.
\<close>

record lib =
  path_join :: "jsstring \<Rightarrow> jsstring \<Rightarrow> jsstring"
  path_dirname :: "jsstring \<Rightarrow> jsstring"
  path_basename :: "jsstring \<Rightarrow> jsstring"
  path_extname :: "jsstring \<Rightarrow> jsstring"
  path_relative :: "jsstring \<Rightarrow> jsstring \<Rightarrow> jsstring"
  script_dirname :: jsstring
  globule_find :: "world \<Rightarrow> jsstring \<Rightarrow> jsstring list"
  slug_lib :: "jsstring \<Rightarrow> jsstring"
  normalize_lib :: "jsstring \<Rightarrow> jsstring"
  commonmark :: "jsstring \<Rightarrow> jsstring"
  loadFront :: "fdata \<Rightarrow> front option"
  pug_render :: "fdata \<Rightarrow> page \<Rightarrow> site \<Rightarrow> jsstring option"

section \<open>The helpers of embellij.js (lines 54-57, 78-97)\<close>

definition stripExtOfPathname :: "lib \<Rightarrow> jsstring \<Rightarrow> jsstring" where
  "stripExtOfPathname l fname =
     take (length fname - length (path_extname l fname)) fname"


definition convertCommonmarkToHtml :: "lib \<Rightarrow> jsstring \<Rightarrow> jsstring" where
  "convertCommonmarkToHtml l text = convertUnicodeCharsToHtml (commonmark l text)"



section \<open>readPages (lines 126-189)\<close>

text \<open>
  Lines 136-139: the cached pages by file name, a later page replacing an earlier one of
  the same name.
\<close>

definition cacheByFilename :: "page list \<Rightarrow> jsstring \<Rightarrow> page option" where
  "cacheByFilename ps = fold (\<lambda>p m. m(filename p \<mapsto> p)) ps Map.empty"

text \<open>
  Lines 146-150: a copy of \<^verbatim>\<open>defaultPage\<close>, overlaid with the cached page of the file (a
  cached record carries every property), then given the file name.
\<close>

definition overlayCached :: "(jsstring \<Rightarrow> page option) \<Rightarrow> jsstring \<Rightarrow> page" where
  "overlayCached cached file =
     set_filename file (case cached file of None \<Rightarrow> defaultPage | Some c \<Rightarrow> c)"

text \<open>
  \<^verbatim>\<open>yamlFront.loadFront(file, 'content')\<close> reads the file and parses it.
\<close>

definition loadFrontOf :: "lib \<Rightarrow> world \<Rightarrow> jsstring \<Rightarrow> error + front" where
  "loadFrontOf l w file =
     (case readFileSync w file of
        Inl e \<Rightarrow> Inl e
      | Inr d \<Rightarrow> (case loadFront l d of None \<Rightarrow> Inl (YAMLException file) | Some fm \<Rightarrow> Inr fm))"

text \<open>
  Lines 152-159, the staleness test. The result carries the page and whether the parse
  was skipped (\<^verbatim>\<open>nSkip += 1\<close>).
\<close>

definition refreshPage :: "lib \<Rightarrow> world \<Rightarrow> jsstring \<Rightarrow> page \<Rightarrow> error + page \<times> bool" where
  "refreshPage l w file page =
     (case getModifiedDate w file of
        Inl e \<Rightarrow> Inl e
      | Inr m \<Rightarrow>
          if js_ne (Date_parse m) (Date_parse (modified page)) then
            (case loadFrontOf l w file of
               Inl e \<Rightarrow> Inl e
             | Inr fm \<Rightarrow>
                 (let p1 = set_content (body fm) (assign fm page);
                      p2 = set_content (convertCommonmarkToHtml l (content p1)) p1
                  in Inr (set_modified m p2, False)))
          else Inr (page, True))"

text \<open>\<^verbatim>\<open>page.slug + site.writeExt\<close>, where \<^verbatim>\<open>null\<close> would print as \<^verbatim>\<open>null\<close>.\<close>

definition slugText :: "page \<Rightarrow> jsstring" where
  "slugText p = (case slug p of None \<Rightarrow> js ''null'' | Some t \<Rightarrow> t)"

text \<open>
  Lines 164-180: slug, second conversion of the content, url, target, relSiteUrl (lines
  161-163 normalise the date, which is not modelled).
\<close>

definition deriveSlug :: "lib \<Rightarrow> page \<Rightarrow> page" where
  "deriveSlug l page =
     (if \<not> truthyOpt (slug page)
      then (let name = path_basename l (stripExtOfPathname l (filename page))
            in set_slug (Some (slug_lib l (normalize_lib l name))) page)
      else page)"

definition derivePage :: "lib \<Rightarrow> site \<Rightarrow> page \<Rightarrow> page" where
  "derivePage l st page =
     (let p1 = deriveSlug l page;
          p2 = set_content (convertCommonmarkToHtml l (content p1)) p1;
          p3 = (if \<not> truthy (url p2)
                then (let dirname = path_dirname l (filename p2);
                          full_url = path_join l dirname (slugText p2 @ writeExt st)
                      in set_url (path_relative l (contentDir st) full_url) p2)
                else p2);
          p4 = (if \<not> truthy (target p3) then set_target (url p3) p3 else p3);
          p5 = set_relSiteUrl (path_relative l (path_dirname l (target p4)) (js ''.'')) p4
      in if \<not> truthy (relSiteUrl p5) then set_relSiteUrl (js ''.'') p5 else p5)"

text \<open>The body of the loop over \<^verbatim>\<open>site.files\<close> for one file, and the loop.\<close>

definition readPage ::
  "lib \<Rightarrow> site \<Rightarrow> world \<Rightarrow> (jsstring \<Rightarrow> page option) \<Rightarrow> jsstring \<Rightarrow> error + page \<times> bool" where
  "readPage l st w cached file =
     (case refreshPage l w file (overlayCached cached file) of
        Inl e \<Rightarrow> Inl e
      | Inr (p, skipped) \<Rightarrow> Inr (derivePage l st p, skipped))"



section \<open>getTemplateDir and writePages (lines 214-275)\<close>

definition getTemplateDir :: "lib \<Rightarrow> world \<Rightarrow> page \<Rightarrow> site \<Rightarrow> jsstring option" where
  "getTemplateDir l w page st =
     (let templateDirs = [path_dirname l (filename page), templateDir st,
                          path_join l (script_dirname l) (js ''defaults'')]
      in find (existsSync w) (map (\<lambda>dir. path_join l dir (template page)) templateDirs))"

text \<open>\<^verbatim>\<open>_.endsWith(template, 'pug')\<close>; lodash reads \<^verbatim>\<open>null\<close> as the empty string.\<close>

definition endsWith :: "jsstring option \<Rightarrow> jsstring \<Rightarrow> bool" where
  "endsWith s t =
     (let str = (case s of None \<Rightarrow> [] | Some x \<Rightarrow> x)
      in length t \<le> length str \<and> drop (length str - length t) str = t)"

text \<open>Lines 244-252: the test that skips the write of a page.\<close>

definition skipWrite :: "world \<Rightarrow> page \<Rightarrow> jsstring \<Rightarrow> bool" where
  "skipWrite w page outHtml =
     (isFile w outHtml \<and>
      (case getModifiedDate w outHtml of
         Inl e \<Rightarrow> False
       | Inr wt \<Rightarrow>
           js_eq (Date_parse wt) (Date_parse (writeTime page)) \<and>
           js_ge (Date_parse wt) (Date_parse (modified page))))"

text \<open>Lines 254-263: the text to write.\<close>

definition renderPage :: "lib \<Rightarrow> world \<Rightarrow> site \<Rightarrow> page \<Rightarrow> error + jsstring" where
  "renderPage l w st page =
     (let tmpl = getTemplateDir l w page st
      in if endsWith tmpl (js ''pug'') then
           (case readFileSync w (the tmpl) of
              Inl e \<Rightarrow> Inl e
            | Inr d \<Rightarrow>
                (case pug_render l d page st of
                   None \<Rightarrow> Inl (PugError (the tmpl))
                 | Some text \<Rightarrow> Inr text))
         else Inr (content page))"

text \<open>
  The body of the loop over \<^verbatim>\<open>site.pages\<close> for one page, from line 242 on: the page, the
  file system and whether the write was skipped. The formatting of dates (lines
  233-240) is not modelled.
\<close>

definition writePage :: "lib \<Rightarrow> site \<Rightarrow> world \<Rightarrow> page \<Rightarrow> error + page \<times> world \<times> bool" where
  "writePage l st w page =
     (let outHtml = path_join l (outputDir st) (target page)
      in if skipWrite w page outHtml then Inr (page, w, True)
         else
           (case renderPage l w st page of
              Inl e \<Rightarrow> Inl e
            | Inr text \<Rightarrow>
                (case writeFileSync w outHtml (Text text) of
                   Inl e \<Rightarrow> Inl e
                 | Inr w' \<Rightarrow>
                     (case getModifiedDate w' outHtml of
                        Inl e \<Rightarrow> Inl e
                      | Inr t \<Rightarrow> Inr (set_writeTime t page, w', False)))))"



section \<open>processSite (lines 277-294)\<close>

text \<open>Lines 278-282: the cached pages are appended to \<^verbatim>\<open>site.pages\<close>.\<close>

definition loadCache :: "site \<Rightarrow> world \<Rightarrow> error + site" where
  "loadCache st w =
     (if \<not> forced st \<and> isFile w (cachedPages st) then
        (case readFileSync w (cachedPages st) of
           Inl e \<Rightarrow> Inl e
         | Inr d \<Rightarrow>
             (case d of
                Json ps \<Rightarrow> Inr (st\<lparr>pages := pages st @ ps\<rparr>)
              | _ \<Rightarrow> Inl (SyntaxError (cachedPages st))))
      else Inr st)"



section \<open>Auxiliary notions of the proofs\<close>

text \<open>
  The order of \<open>compareAscending\<close> as a key: numbers in their order, \<^verbatim>\<open>undefined\<close> after
  them. \<open>entryKey\<close> is the key of \<open>compareMultiple\<close> on decorated entries (pairs are
  ordered lexicographically).
\<close>

definition rank :: "int option \<Rightarrow> nat \<times> int" where
  "rank c = (case c of Some a \<Rightarrow> (0, a) | None \<Rightarrow> (1, 0))"

definition entryKey :: "int option \<times> nat \<times> 'a \<Rightarrow> (nat \<times> int) \<times> nat" where
  "entryKey e = (rank (fst e), fst (snd e))"

text \<open>What the loop of \<open>generateIndexableSubpages\<close> makes of one page of the site.\<close>

definition aggregated :: "page list \<Rightarrow> page \<Rightarrow> page" where
  "aggregated ps p = (if index p then set_subpages (indexableSubpages ps p) p else p)"

section \<open>Example inputs\<close>

definition examplePost :: "jsstring \<Rightarrow> jsstring \<Rightarrow> int \<Rightarrow> page" where
  "examplePost name cat r = Page (js ''default.pug'') name [] [] [] [] cat [] None [] []
     False None True [] None Undefined Undefined [(js ''rank'', r)]"

definition exampleIndex :: "jsstring \<Rightarrow> jsstring \<Rightarrow> int \<Rightarrow> page" where
  "exampleIndex name cat k = Page (js ''default.pug'') name [] [] [] [] cat [] None [] []
     True (Some (js ''rank'')) True [] (Some k) Undefined Undefined []"

text \<open>Two posts with the same rank, then their index page.\<close>

definition tieSite :: site where
  "tieSite = (mainSite False False)\<lparr>pages :=
     [examplePost (js ''a.md'') (js ''news'') 1,
      examplePost (js ''b.md'') (js ''news'') 1,
      exampleIndex (js ''index.md'') (js ''news'') 2]\<rparr>"

text \<open>Four posts (one of another category) and the index page of the category.\<close>

definition newsSite :: site where
  "newsSite = (mainSite False False)\<lparr>pages :=
     [examplePost (js ''a.md'') (js ''news'') 3,
      examplePost (js ''b.md'') (js ''news'') 1,
      examplePost (js ''c.md'') (js ''news'') 3,
      examplePost (js ''d.md'') (js ''misc'') 9,
      exampleIndex (js ''index.md'') (js ''news'') 2]\<rparr>"

text \<open>
  Stand-ins for the libraries: paths are joined with a slash (\<open>.\<close> joins to nothing), every
  file lies in the directory \<open>.\<close>,
  the extension is \<^verbatim>\<open>.md\<close> or none, the slug drops spaces, the markup converter wraps
  its text in a paragraph, front matter is empty and the template prints the content.
\<close>

definition exampleLib :: lib where
  "exampleLib =
     \<lparr> path_join = (\<lambda>a b. if a = js ''.'' then b else a @ js ''/'' @ b),
       path_dirname = (\<lambda>p. js ''.''),
       path_basename = (\<lambda>p. p),
       path_extname = (\<lambda>p. if endsWith (Some p) (js ''.md'') then js ''.md'' else []),
       path_relative = (\<lambda>a b. b),
       script_dirname = js ''/app'',
       globule_find = (\<lambda>w pat. []),
       slug_lib = filter (\<lambda>c. c \<noteq> 32),
       normalize_lib = (\<lambda>t. t),
       commonmark = (\<lambda>t. js ''<p>'' @ t @ js ''</p>''),
       loadFront = (\<lambda>d. case d of Text t \<Rightarrow> Some \<lparr>assign = (\<lambda>p. p), body = t\<rparr> | _ \<Rightarrow> None),
       pug_render = (\<lambda>d p st. Some (content p)) \<rparr>"

text \<open>
  The record of \<^verbatim>\<open>a.md\<close> as a previous run cached it: \<open>tm\<close> is the source's modification
  time at that run, \<open>tw\<close> the output's.
\<close>

definition cachedPage :: "int \<Rightarrow> int \<Rightarrow> page" where
  "cachedPage tm tw = Page (js ''default.pug'') (js ''a.md'') [] [] (js ''<p>old</p>'') [] []
     (js ''.'') (Some (js ''a'')) (js ''a.html'') (js ''a.html'') False None True [] None
     (IsoString tm) (IsoString tw) []"

text \<open>
  Two sources modified at \<open>ts\<close>, the output of the first written at \<open>to\<close>, and the cache
  of that run. No template file exists.
\<close>

definition exampleWorld :: "int \<Rightarrow> int \<Rightarrow> world" where
  "exampleWorld ts to =
     \<lparr> entries = (\<lambda>f. None)
         (js ''a.md'' \<mapsto> \<lparr>mtime = ts, data = Text (js ''new'')\<rparr>,
          js ''my post.md'' \<mapsto> \<lparr>mtime = ts, data = Text (js ''new'')\<rparr>,
          js ''a.html'' \<mapsto> \<lparr>mtime = to, data = Text (js ''<p>old</p>'')\<rparr>,
          js ''cache.json'' \<mapsto> \<lparr>mtime = to, data = Json [cachedPage ts to]\<rparr>),
       writable = (\<lambda>f. True), clock = 1600000000456 \<rparr>"

text \<open>The site of \<^verbatim>\<open>main\<close> for the argument \<^verbatim>\<open>a.md\<close> and a configured cache file.\<close>

definition exampleSite :: "bool \<Rightarrow> site" where
  "exampleSite parsed_force =
     (mainSite False parsed_force)\<lparr>files := [js ''a.md''], cachedPages := js ''cache.json''\<rparr>"

section \<open>Properties of convertUnicodeCharsToHtml\<close>

lemma convertLoop_eq:
  "convertLoop str i result = result @ concat (map escapeUnit (drop i str))"
proof (induction str i result rule: convertLoop.induct)
  case (1 str i result)
  show ?case
  proof (cases "i < length str")
    case False
    then show ?thesis by (simp add: convertLoop.simps [of str i result])
  next
    case True
    then have d: "drop i str = str ! i # drop (Suc i) str"
      by (simp add: Cons_nth_drop_Suc)
    show ?thesis
    proof (cases "unat (str ! i) \<le> 127")
      case True
      with \<open>i < length str\<close> "1.IH"(1) [OF \<open>i < length str\<close> refl True] d show ?thesis
        by (simp add: convertLoop.simps [of str i result] escapeUnit_def)
    next
      case False
      with \<open>i < length str\<close> "1.IH"(2) [OF \<open>i < length str\<close> refl False] d show ?thesis
        by (simp add: convertLoop.simps [of str i result] escapeUnit_def)
    qed
  qed
qed

lemma convertUnicodeCharsToHtml_eq:
  "convertUnicodeCharsToHtml str = concat (map escapeUnit str)"
  by (cases str) (simp_all add: convertUnicodeCharsToHtml_def convertLoop_eq)

lemma digit_ascii: "d < 10 \<Longrightarrow> unat (digit d) \<le> 127"
  unfolding digit_def by (simp only: unat_of_nat) simp

lemma decimal_ascii: "u \<in> set (decimal n) \<Longrightarrow> unat u \<le> 127"
proof (induction n rule: decimal.induct)
  case (1 n)
  show ?case
  proof (cases "n < 10")
    case True
    with "1.prems" have "u = digit n"
      by (simp add: decimal.simps [of n])
    with True show ?thesis
      by (simp add: digit_ascii)
  next
    case False
    with "1.prems" have "u \<in> set (decimal (n div 10)) \<or> u = digit (n mod 10)"
      by (auto simp add: decimal.simps [of n])
    then show ?thesis
    proof
      assume "u \<in> set (decimal (n div 10))"
      with "1.IH" False show ?thesis by simp
    next
      assume "u = digit (n mod 10)"
      then show ?thesis by (simp add: digit_ascii)
    qed
  qed
qed

lemma escapeUnit_ascii: "v \<in> set (escapeUnit u) \<Longrightarrow> unat v \<le> 127"
  by (auto simp add: escapeUnit_def js_def dest: decimal_ascii split: if_splits)

lemma convert_ascii: "v \<in> set (convertUnicodeCharsToHtml s) \<Longrightarrow> unat v \<le> 127"
  by (auto simp add: convertUnicodeCharsToHtml_eq dest: escapeUnit_ascii)

lemma convert_id_on_ascii:
  "(\<And>u. u \<in> set s \<Longrightarrow> unat u \<le> 127) \<Longrightarrow> convertUnicodeCharsToHtml s = s"
  unfolding convertUnicodeCharsToHtml_eq
  by (induction s) (simp_all add: escapeUnit_def)

text \<open>
  C10. The escaping function is idempotent: applying it twice is applying it once. Its
  output holds only units up to 127 (ASCII), and on a string of such units it is the
  identity.
\<close>

theorem convertUnicodeCharsToHtml_idempotent:
  "convertUnicodeCharsToHtml (convertUnicodeCharsToHtml s) = convertUnicodeCharsToHtml s
   \<and> (\<forall>v \<in> set (convertUnicodeCharsToHtml s). unat v \<le> 127)
   \<and> ((\<forall>u \<in> set s. unat u \<le> 127) \<longrightarrow> convertUnicodeCharsToHtml s = s)"
proof (intro conjI)
  show "convertUnicodeCharsToHtml (convertUnicodeCharsToHtml s) = convertUnicodeCharsToHtml s"
    by (rule convert_id_on_ascii) (rule convert_ascii)
  show "\<forall>v \<in> set (convertUnicodeCharsToHtml s). unat v \<le> 127"
    by (blast dest: convert_ascii)
  show "(\<forall>u \<in> set s. unat u \<le> 127) \<longrightarrow> convertUnicodeCharsToHtml s = s"
    by (blast intro: convert_id_on_ascii)
qed

lemma escape_e_acute: "convertUnicodeCharsToHtml [0xE9] = js ''&#233;''"
  by (simp add: convertUnicodeCharsToHtml_eq escapeUnit_def decimal.simps digit_def js_def)

theorem convertUnicodeCharsToHtml_idempotent_witness:
  "convertUnicodeCharsToHtml (js ''<p>'') = js ''<p>''
   \<and> convertUnicodeCharsToHtml (convertUnicodeCharsToHtml [0xE9]) = js ''&#233;''"
  using convertUnicodeCharsToHtml_idempotent [of "js ''<p>''"]
    convertUnicodeCharsToHtml_idempotent [of "[0xE9]"] escape_e_acute
  by (simp add: js_def)

lemma codePoints_units:
  "\<forall>u \<in> set s. \<not> isHighSurrogate u \<Longrightarrow> codePoints s = map unat s"
  by (induction s rule: codePoints.induct) simp_all

lemma escapeCodePoint_unat: "escapeCodePoint (unat u) = escapeUnit u"
  by (simp add: escapeCodePoint_def escapeUnit_def)

text \<open>
  In a string without a high surrogate every character is one unit, and the code does
  what the specification describes: each character above code point 127 becomes its
  numeric character reference.
\<close>

theorem escaping_agrees_without_surrogates:
  "\<forall>u \<in> set s. \<not> isHighSurrogate u \<Longrightarrow> convertUnicodeCharsToHtml s = escapeNonAscii_spec s"
  by (simp add: convertUnicodeCharsToHtml_eq escapeNonAscii_spec_def codePoints_units
      comp_def escapeCodePoint_unat)

theorem escaping_agrees_without_surrogates_witness:
  "convertUnicodeCharsToHtml [0x63, 0xE9] = escapeNonAscii_spec [0x63, 0xE9]"
  using escaping_agrees_without_surrogates [of "[0x63, 0xE9]"]
  by (simp add: isHighSurrogate_def)

text \<open>
  C6. At the string of the one character U+1F600 (the surrogate pair D83D DE00) the code
  writes a reference for each surrogate, \<^verbatim>\<open>&#55357;&#56832;\<close>, while the character's
  numeric character reference is \<^verbatim>\<open>&#128512;\<close>. At U+00E9 the code writes \<^verbatim>\<open>&#233;\<close>.
\<close>

theorem convertUnicodeCharsToHtml_surrogate_pair:
  "convertUnicodeCharsToHtml [0xD83D, 0xDE00] = js ''&#55357;&#56832;''
   \<and> codePoints [0xD83D, 0xDE00] = [0x1F600]
   \<and> escapeNonAscii_spec [0xD83D, 0xDE00] = js ''&#128512;''
   \<and> convertUnicodeCharsToHtml [0xE9] = js ''&#233;''"
proof (intro conjI)
  show "convertUnicodeCharsToHtml [0xD83D, 0xDE00] = js ''&#55357;&#56832;''"
    by (simp add: convertUnicodeCharsToHtml_def convertLoop.simps decimal.simps digit_def js_def)
  show "codePoints [0xD83D, 0xDE00] = [0x1F600]"
    by (simp add: isHighSurrogate_def isLowSurrogate_def)
  show "escapeNonAscii_spec [0xD83D, 0xDE00] = js ''&#128512;''"
    by (simp add: escapeNonAscii_spec_def escapeCodePoint_def isHighSurrogate_def
        isLowSurrogate_def decimal.simps digit_def js_def)
  show "convertUnicodeCharsToHtml [0xE9] = js ''&#233;''"
    by (rule escape_e_acute)
qed

section \<open>Literals as JavaScript strings\<close>

lemma of_char_lt: "(of_char c :: nat) < 256"
proof -
  have "(of_char c :: nat) mod 256 < 256" by simp
  then show ?thesis by (simp only: of_char_mod_256)
qed

lemma of_char_lt16: "(of_char c :: nat) < 65536"
  by (rule less_trans [OF of_char_lt]) simp

lemma unat_unit_of_char: "unat (of_nat (of_char c) :: 16 word) = of_char c"
proof -
  have "unat (of_nat (of_char c) :: 16 word) = of_char c mod 65536"
    by (simp only: unat_of_nat) simp
  also have "\<dots> = of_char c"
    by (rule mod_less) (rule of_char_lt16)
  finally show ?thesis .
qed

lemma unit_of_char_inj: "(of_nat (of_char a) :: 16 word) = of_nat (of_char b) \<longleftrightarrow> a = b"
proof
  assume "(of_nat (of_char a) :: 16 word) = of_nat (of_char b)"
  then have "unat (of_nat (of_char a) :: 16 word) = unat (of_nat (of_char b) :: 16 word)"
    by (rule arg_cong)
  then have "(of_char a :: nat) = of_char b"
    by (simp only: unat_unit_of_char)
  then show "a = b" by simp
qed simp

lemma js_inj: "js a = js b \<longleftrightarrow> a = b"
proof (induction a arbitrary: b)
  case Nil
  then show ?case by (auto simp add: js_def)
next
  case (Cons x a)
  then show ?case
    by (cases b) (auto simp add: js_def unit_of_char_inj)
qed

lemma js_Nil: "js [] = []" "js s = [] \<longleftrightarrow> s = []" "[] = js s \<longleftrightarrow> s = []"
  by (auto simp add: js_def)

lemma js_append: "js a @ js b = js (a @ b)"
  by (simp add: js_def)

lemma js_append2: "js a @ js b @ r = js (a @ b) @ r"
  by (simp add: js_def)

lemma length_js: "length (js s) = length s"
  by (simp add: js_def)

lemma take_js: "take n (js s) = js (take n s)"
  by (simp add: js_def take_map)

lemma drop_js: "drop n (js s) = js (drop n s)"
  by (simp add: js_def drop_map)

lemma convert_js:
  "list_all (\<lambda>c. (of_char c :: nat) \<le> 127) s \<Longrightarrow> convertUnicodeCharsToHtml (js s) = js s"
  by (rule convert_id_on_ascii) (auto simp add: js_def list_all_iff unat_unit_of_char)

lemma slug_js: "filter (\<lambda>c. c \<noteq> 32) (js s) = js (filter (\<lambda>c. c \<noteq> CHR '' '') s)"
proof -
  have "(of_nat (of_char c) :: 16 word) \<noteq> 32 \<longleftrightarrow> c \<noteq> CHR '' ''" for c
    using unit_of_char_inj [of c "CHR '' ''"] by simp
  then show ?thesis by (simp add: js_def filter_map comp_def)
qed

lemmas js_simps = js_inj js_Nil js_append js_append2 length_js take_js drop_js convert_js slug_js

section \<open>Verification of the aggregation\<close>

lemma sel_set_subpages [simp]:
  "index (set_subpages v p) = index p" "subpages (set_subpages v p) = v"
  "category (set_subpages v p) = category p" "filename (set_subpages v p) = filename p"
  by (simp_all add: set_subpages_def)

lemma rank_inj: "rank a = rank b \<longleftrightarrow> a = b"
  by (auto simp add: rank_def split: option.splits)

lemma rank_le_Some: "rank (Some x) \<le> rank (Some y) \<longleftrightarrow> x \<le> y"
  by (auto simp add: rank_def less_eq_prod_def)

lemma compareMultiple_le:
  "compareMultiple a b \<le> 0 \<longleftrightarrow> entryKey a \<le> entryKey b"
  by (auto simp add: compareMultiple_def compareAscending_def entryKey_def rank_def Let_def
      less_eq_prod_def split: option.splits)

lemma insertBy_insort:
  "insertBy compareMultiple x ys = insort_key entryKey x ys"
  by (induction ys) (simp_all add: compareMultiple_le)

lemma arraySort_sort_key: "arraySort compareMultiple xs = sort_key entryKey xs"
  unfolding arraySort_def sort_key_def
  by (induction xs) (simp_all add: insertBy_insort)

lemma decorate_set:
  "e \<in> set (decorate key n qs) \<Longrightarrow> n \<le> fst (snd e) \<and> fst e = pageProp (snd (snd e)) key"
  by (induction qs arbitrary: n) (auto, fastforce+)

lemma pair_le_later:
  fixes a b :: "'k::linorder" and n i :: nat
  shows "n < i \<Longrightarrow> (a, n) \<le> (b, i) \<longleftrightarrow> a \<le> b"
  by (auto simp add: less_eq_prod_def)

lemma insort_entry:
  assumes "\<And>e. e \<in> set D \<Longrightarrow> n < fst (snd e) \<and> fst e = pageProp (snd (snd e)) key"
  shows "map (\<lambda>e. snd (snd e)) (insort_key entryKey (pageProp q key, n, q) D)
       = insort_key (\<lambda>q. rank (pageProp q key)) q (map (\<lambda>e. snd (snd e)) D)"
  using assms
proof (induction D)
  case Nil
  then show ?case by simp
next
  case (Cons d D)
  have d: "n < fst (snd d)" "fst d = pageProp (snd (snd d)) key"
    using Cons.prems [of d] by simp_all
  have le: "entryKey (pageProp q key, n, q) \<le> entryKey d
      \<longleftrightarrow> rank (pageProp q key) \<le> rank (pageProp (snd (snd d)) key)"
    unfolding entryKey_def using d(1) by (simp only: fst_conv snd_conv d(2) pair_le_later)
  show ?case
  proof (cases "entryKey (pageProp q key, n, q) \<le> entryKey d")
    case True
    with le show ?thesis by simp
  next
    case False
    with le Cons.IH Cons.prems show ?thesis by simp
  qed
qed

lemma sort_decorate:
  "map (\<lambda>e. snd (snd e)) (sort_key entryKey (decorate key n qs))
     = sort_key (\<lambda>q. rank (pageProp q key)) qs"
proof (induction qs arbitrary: n)
  case Nil
  then show ?case by simp
next
  case (Cons q qs)
  have "\<And>e. e \<in> set (sort_key entryKey (decorate key (Suc n) qs))
      \<Longrightarrow> n < fst (snd e) \<and> fst e = pageProp (snd (snd e)) key"
    using decorate_set [of _ key "Suc n" qs] by fastforce
  then have "map (\<lambda>e. snd (snd e))
        (insort_key entryKey (pageProp q key, n, q) (sort_key entryKey (decorate key (Suc n) qs)))
      = insort_key (\<lambda>q. rank (pageProp q key)) q
        (map (\<lambda>e. snd (snd e)) (sort_key entryKey (decorate key (Suc n) qs)))"
    by (rule insort_entry)
  then show ?case
    using Cons.IH [of "Suc n"] by simp
qed

lemma sortBy_eq: "sortBy c key = Arr (sort_key (\<lambda>q. rank (pageProp q key)) (elems c))"
  by (simp add: sortBy_def arraySort_sort_key sort_decorate)


lemma indexableSubpages_cong:
  "filter (\<lambda>q. \<not> index q) ps' = filter (\<lambda>q. \<not> index q) ps
   \<Longrightarrow> indexableSubpages ps' p = indexableSubpages ps p"
  by (simp add: indexableSubpages_def omitBy_index_def)

lemma filter_aggregated:
  "filter (\<lambda>q. \<not> index q) (map (aggregated ps) xs) = filter (\<lambda>q. \<not> index q) xs"
  by (induction xs) (simp_all add: aggregated_def)

lemma generate_fold:
  "k \<le> length ps \<Longrightarrow>
   fold generateStep [0..<k] ps = take k (map (aggregated ps) ps) @ drop k ps"
proof (induction k)
  case 0
  then show ?case by simp
next
  case (Suc k)
  let ?G = "map (aggregated ps) ps"
  let ?cur = "take k ?G @ drop k ps"
  from Suc.prems have k: "k < length ps" by simp
  have cur: "fold generateStep [0..<k] ps = ?cur"
    using Suc.IH k by simp
  have nth: "?cur ! k = ps ! k"
    using k by (simp add: nth_append)
  have "filter (\<lambda>q. \<not> index q) ?cur
      = filter (\<lambda>q. \<not> index q) (take k ps) @ filter (\<lambda>q. \<not> index q) (drop k ps)"
    by (simp add: take_map filter_aggregated)
  also have "\<dots> = filter (\<lambda>q. \<not> index q) ps"
    by (simp flip: filter_append)
  finally have same: "indexableSubpages ?cur (ps ! k) = indexableSubpages ps (ps ! k)"
    by (rule indexableSubpages_cong)
  have dr: "drop k ps = ps ! k # drop (Suc k) ps"
    using k by (simp add: Cons_nth_drop_Suc)
  have step: "generateStep k ?cur = take k ?G @ aggregated ps (ps ! k) # drop (Suc k) ps"
  proof (cases "index (ps ! k)")
    case True
    have "?cur[k := aggregated ps (ps ! k)] = take k ?G @ (drop k ps)[0 := aggregated ps (ps ! k)]"
      using k by (simp add: list_update_append)
    also have "\<dots> = take k ?G @ aggregated ps (ps ! k) # drop (Suc k) ps"
      by (subst dr) simp
    finally have "?cur[k := aggregated ps (ps ! k)]
        = take k ?G @ aggregated ps (ps ! k) # drop (Suc k) ps" .
    with True nth same show ?thesis
      by (simp add: generateStep_def Let_def aggregated_def)
  next
    case False
    with nth show ?thesis
      by (simp add: generateStep_def Let_def aggregated_def dr)
  qed
  have "take (Suc k) ?G = take k ?G @ [aggregated ps (ps ! k)]"
    using k by (simp add: take_Suc_conv_app_nth)
  with step cur show ?case by simp
qed

lemma generateIndexableSubpages_eq:
  "pages (generateIndexableSubpages st) = map (aggregated (pages st)) (pages st)"
  by (simp add: generateIndexableSubpages_def generate_fold)


lemmas page_eval = examplePost_def exampleIndex_def mainSite_def js_simps
  generateIndexableSubpages_eq aggregated_def indexableSubpages_def omitBy_index_def
  filter_category_def sortBy_def arraySort_def compareMultiple_def compareAscending_def
  reverse_def take_n_def elems_def truthy_def set_subpages_def pageProp_def Let_def

text \<open>
  C1 (as amended). For an index page with a non-empty category \<open>C\<close>, a sort key, the
  reverse flag and a cap \<open>k \<ge> 1\<close>, where every page of category \<open>C\<close> that is not itself an
  index page has a number under the key: the subpages are the first \<open>k\<close> entries of a list
  \<open>R\<close> that holds exactly the non-index pages of category \<open>C\<close>, in descending order of
  the value, pages of equal value in the reverse of their discovery order.
\<close>

theorem aggregation_top_k:
  assumes i: "i < length (pages st)"
    and p: "index (pages st ! i)" "category (pages st ! i) = C" "C \<noteq> []"
       "sortKey (pages st ! i) = Some key" "key \<noteq> []" "sortReverse (pages st ! i)"
       "maxSubpages (pages st ! i) = Some k" "0 < k"
    and numeric: "\<forall>q \<in> set (pages st). \<not> index q \<and> category q = C \<longrightarrow> pageProp q key \<noteq> None"
  shows "\<exists>R. subpages (pages (generateIndexableSubpages st) ! i) = take (nat k) R
     \<and> mset R = mset (filter (\<lambda>q. \<not> index q \<and> category q = C) (pages st))
     \<and> sorted_wrt (\<lambda>a b. the (pageProp b key) \<le> the (pageProp a key)) R
     \<and> (\<forall>v. filter (\<lambda>q. pageProp q key = v) R
            = rev (filter (\<lambda>q. pageProp q key = v)
                (filter (\<lambda>q. \<not> index q \<and> category q = C) (pages st))))"
proof -
  let ?cands = "filter (\<lambda>q. \<not> index q \<and> category q = C) (pages st)"
  let ?g = "\<lambda>q. rank (pageProp q key)"
  let ?R = "rev (sort_key ?g ?cands)"
  have "indexableSubpages (pages st) (pages st ! i) = take (nat k) ?R"
    using p by (simp add: indexableSubpages_def omitBy_index_def filter_category_def sortBy_eq
        reverse_def take_n_def elems_def truthy_def conj_commute)
  then have sub: "subpages (pages (generateIndexableSubpages st) ! i) = take (nat k) ?R"
    using i p(1) by (simp add: generateIndexableSubpages_eq aggregated_def)
  have ms: "mset ?R = mset ?cands" by simp
  have "sorted (map ?g (sort_key ?g ?cands))"
    by (rule sorted_sort_key)
  then have "sorted_wrt (\<lambda>a b. ?g a \<le> ?g b) (sort_key ?g ?cands)"
    by (simp add: sorted_map)
  then have "sorted_wrt (\<lambda>a b. the (pageProp a key) \<le> the (pageProp b key)) (sort_key ?g ?cands)"
  proof (rule sorted_wrt_mono_rel [rotated])
    fix a b
    assume "a \<in> set (sort_key ?g ?cands)" "b \<in> set (sort_key ?g ?cands)" "?g a \<le> ?g b"
    then have "a \<in> set ?cands" "b \<in> set ?cands" and le: "?g a \<le> ?g b"
      by simp_all
    with numeric have "pageProp a key \<noteq> None" "pageProp b key \<noteq> None"
      by simp_all
    then obtain x y where "pageProp a key = Some x" "pageProp b key = Some y"
      by blast
    with le show "the (pageProp a key) \<le> the (pageProp b key)"
      by (simp add: rank_le_Some)
  qed
  then have desc: "sorted_wrt (\<lambda>a b. the (pageProp b key) \<le> the (pageProp a key)) ?R"
    by (simp add: sorted_wrt_rev)
  have ties: "filter (\<lambda>q. pageProp q key = v) ?R = rev (filter (\<lambda>q. pageProp q key = v) ?cands)" for v
  proof -
    have "filter (\<lambda>q. ?g q = rank v) (sort_key ?g ?cands) = filter (\<lambda>q. ?g q = rank v) ?cands"
      by (rule sort_key_stable)
    then have "filter (\<lambda>q. pageProp q key = v) (sort_key ?g ?cands)
        = filter (\<lambda>q. pageProp q key = v) ?cands"
      by (simp only: rank_inj)
    then have "rev (filter (\<lambda>q. pageProp q key = v) (sort_key ?g ?cands))
        = rev (filter (\<lambda>q. pageProp q key = v) ?cands)"
      by (rule arg_cong)
    then show ?thesis by (simp only: rev_filter)
  qed
  from sub ms desc ties show ?thesis by blast
qed

theorem aggregation_top_k_witness:
  "\<exists>R. subpages (pages (generateIndexableSubpages newsSite) ! 4) = take (nat 2) R
     \<and> mset R = mset (filter (\<lambda>q. \<not> index q \<and> category q = js ''news'') (pages newsSite))
     \<and> sorted_wrt (\<lambda>a b. the (pageProp b (js ''rank'')) \<le> the (pageProp a (js ''rank''))) R
     \<and> (\<forall>v. filter (\<lambda>q. pageProp q (js ''rank'') = v) R
            = rev (filter (\<lambda>q. pageProp q (js ''rank'') = v)
                (filter (\<lambda>q. \<not> index q \<and> category q = js ''news'') (pages newsSite))))"
proof (rule aggregation_top_k)
  show "4 < length (pages newsSite)"
    by (simp add: newsSite_def)
  show "index (pages newsSite ! 4)"
    by (simp add: newsSite_def exampleIndex_def)
  show "category (pages newsSite ! 4) = js ''news''"
    by (simp add: newsSite_def exampleIndex_def)
  show "js ''news'' \<noteq> []"
    by (simp add: js_def)
  show "sortKey (pages newsSite ! 4) = Some (js ''rank'')"
    by (simp add: newsSite_def exampleIndex_def)
  show "js ''rank'' \<noteq> []"
    by (simp add: js_def)
  show "sortReverse (pages newsSite ! 4)"
    by (simp add: newsSite_def exampleIndex_def)
  show "maxSubpages (pages newsSite ! 4) = Some 2"
    by (simp add: newsSite_def exampleIndex_def)
  show "(0::int) < 2"
    by simp
  show "\<forall>q \<in> set (pages newsSite).
      \<not> index q \<and> category q = js ''news'' \<longrightarrow> pageProp q (js ''rank'') \<noteq> None"
    by (simp add: newsSite_def examplePost_def exampleIndex_def pageProp_def js_def)
qed

text \<open>
  C1 as stated fails on ties: with two posts of equal rank the code lists the later one
  first, while the claim keeps them in discovery order.
\<close>

theorem aggregation_tie_counterexample:
  "subpages (pages (generateIndexableSubpages tieSite) ! 2)
     = [examplePost (js ''b.md'') (js ''news'') 1, examplePost (js ''a.md'') (js ''news'') 1]
   \<and> claimed_subpages (js ''news'') (js ''rank'') 2 (pages tieSite)
     = [examplePost (js ''a.md'') (js ''news'') 1, examplePost (js ''b.md'') (js ''news'') 1]
   \<and> subpages (pages (generateIndexableSubpages tieSite) ! 2)
     \<noteq> claimed_subpages (js ''news'') (js ''rank'') 2 (pages tieSite)"
proof -
  have a: "subpages (pages (generateIndexableSubpages tieSite) ! 2)
     = [examplePost (js ''b.md'') (js ''news'') 1, examplePost (js ''a.md'') (js ''news'') 1]"
    by (simp add: tieSite_def page_eval)
  have b: "claimed_subpages (js ''news'') (js ''rank'') 2 (pages tieSite)
     = [examplePost (js ''a.md'') (js ''news'') 1, examplePost (js ''b.md'') (js ''news'') 1]"
    by (simp add: tieSite_def claimed_subpages_def page_eval)
  have "examplePost (js ''b.md'') (js ''news'') 1 \<noteq> examplePost (js ''a.md'') (js ''news'') 1"
    by (simp add: examplePost_def js_def)
  with a b show ?thesis by simp
qed

text \<open>
  An index page with a cap but neither a category nor a sort key gets no subpages at
  all: the candidates are still the object that \<^verbatim>\<open>_.omitBy\<close> returned, and \<^verbatim>\<open>_.take\<close>
  returns \<^verbatim>\<open>[]\<close> for it.
\<close>

theorem cap_without_filter_or_sort:
  assumes "\<not> truthy (category page)" and "sortKey page = None"
    and "maxSubpages page = Some n" and "n \<noteq> 0"
  shows "indexableSubpages ps page = []"
  using assms
  by (simp add: indexableSubpages_def omitBy_index_def take_n_def elems_def)

theorem cap_without_filter_or_sort_witness:
  "indexableSubpages (pages tieSite)
     (Page (js ''default.pug'') (js ''all.md'') [] [] [] [] [] [] None [] []
        True None True [] (Some 5) Undefined Undefined []) = []"
  by (rule cap_without_filter_or_sort [where n = 5]) (simp_all add: truthy_def)

section \<open>Verification of the page resolver\<close>

lemma sel_sets [simp]:
  "content (set_filename v p) = content p" "modified (set_filename v p) = modified p"
  "slug (set_filename v p) = slug p" "filename (set_filename v p) = v"
  "content (set_content c p) = c" "slug (set_content c p) = slug p"
  "filename (set_content c p) = filename p" "modified (set_content c p) = modified p"
  "content (set_modified m p) = content p" "slug (set_modified m p) = slug p"
  "filename (set_modified m p) = filename p" "modified (set_modified m p) = m"
  "content (set_slug t p) = content p" "slug (set_slug t p) = t"
  "filename (set_slug t p) = filename p"
  "content (set_url u p) = content p" "slug (set_url u p) = slug p"
  "content (set_target u p) = content p" "slug (set_target u p) = slug p"
  "content (set_relSiteUrl u p) = content p" "slug (set_relSiteUrl u p) = slug p"
  by (simp_all add: set_filename_def set_content_def set_modified_def set_slug_def set_url_def
      set_target_def set_relSiteUrl_def)

lemma derivePage_content:
  "content (derivePage l st q) = convertCommonmarkToHtml l (content q)"
  by (simp add: derivePage_def deriveSlug_def Let_def)


lemma refreshPage_skipped:
  assumes "refreshPage l w file page = Inr (q, True)"
  shows "q = page \<and> modified page \<noteq> Undefined"
  using assms
  by (auto simp add: refreshPage_def js_ne_def Date_parse_def Let_def
      split: sum.splits if_splits option.splits timeval.splits)

lemma refreshPage_parsed:
  assumes "refreshPage l w file page = Inr (q, False)"
  shows "\<exists>fm. loadFrontOf l w file = Inr fm \<and> content q = convertCommonmarkToHtml l (body fm)"
  using assms
  by (auto simp add: refreshPage_def Let_def split: sum.splits if_splits)

lemma overlayCached_modified:
  "modified (overlayCached cached file) \<noteq> Undefined \<Longrightarrow>
   \<exists>c. cached file = Some c \<and> content (overlayCached cached file) = content c"
  by (auto simp add: overlayCached_def defaultPage_def split: option.splits)

text \<open>
  C4. Whatever the staleness test decided, the content of a resolved page is the markup
  conversion of the content the test left: for a skipped page the conversion of the
  cached content (converted once more), for a parsed page the conversion of the
  converted body.
\<close>

theorem content_converted_again:
  assumes "readPage l st w cached file = Inr (p, skipped)"
  shows "(skipped \<longrightarrow> (\<exists>c. cached file = Some c
            \<and> content p = convertCommonmarkToHtml l (content c)))
       \<and> (\<not> skipped \<longrightarrow> (\<exists>fm. loadFrontOf l w file = Inr fm
            \<and> content p = convertCommonmarkToHtml l (convertCommonmarkToHtml l (body fm))))"
proof -
  from assms obtain q where
    r: "refreshPage l w file (overlayCached cached file) = Inr (q, skipped)"
    and p: "p = derivePage l st q"
    by (auto simp add: readPage_def split: sum.splits)
  show ?thesis
  proof (cases skipped)
    case True
    with r have "q = overlayCached cached file \<and> modified (overlayCached cached file) \<noteq> Undefined"
      by (simp add: refreshPage_skipped)
    then have "q = overlayCached cached file" "modified (overlayCached cached file) \<noteq> Undefined"
      by simp_all
    with overlayCached_modified obtain c where "cached file = Some c" "content q = content c"
      by blast
    with True p show ?thesis by (simp add: derivePage_content)
  next
    case False
    with r have "refreshPage l w file (overlayCached cached file) = Inr (q, False)"
      by simp
    then obtain fm where "loadFrontOf l w file = Inr fm"
      "content q = convertCommonmarkToHtml l (body fm)"
      using refreshPage_parsed by blast
    with False p show ?thesis by (simp add: derivePage_content)
  qed
qed

lemmas fs_eval = isFile_def existsSync_def statSync_def getModifiedDate_def readFileSync_def
  writeFileSync_def

lemmas read_eval = readPage_def refreshPage_def overlayCached_def derivePage_def deriveSlug_def
  loadFrontOf_def js_ne_def convertCommonmarkToHtml_def
  truthyOpt_def slugText_def stripExtOfPathname_def endsWith_def Date_parse_def
  set_filename_def set_content_def set_modified_def set_slug_def set_url_def set_target_def
  set_relSiteUrl_def

lemma read_unchanged_source:
  "readPage exampleLib (exampleSite False) (exampleWorld 1500000000000 1500000001000)
     (cacheByFilename [cachedPage 1500000000000 1500000001000]) (js ''a.md'')
   = Inr (set_content (js ''<p><p>old</p></p>'') (cachedPage 1500000000000 1500000001000), True)"
  by (simp add: read_eval fs_eval truthy_def Let_def exampleLib_def cachedPage_def
      exampleWorld_def exampleSite_def cacheByFilename_def mainSite_def js_simps)

lemma read_changed_source:
  "readPage exampleLib (exampleSite False) (exampleWorld 1500000005000 1500000001000)
     (cacheByFilename [cachedPage 1500000000000 1500000001000]) (js ''a.md'')
   = Inr (set_modified (DateObj 1500000005000)
        (set_content (js ''<p><p>new</p></p>'') (cachedPage 1500000000000 1500000001000)), False)"
  by (simp add: read_eval fs_eval truthy_def Let_def exampleLib_def cachedPage_def
      exampleWorld_def exampleSite_def cacheByFilename_def mainSite_def js_simps)

theorem content_converted_again_witness:
  "(\<exists>c. cacheByFilename [cachedPage 1500000000000 1500000001000] (js ''a.md'') = Some c
       \<and> js ''<p><p>old</p></p>'' = convertCommonmarkToHtml exampleLib (content c))
   \<and> (\<exists>fm. loadFrontOf exampleLib (exampleWorld 1500000005000 1500000001000) (js ''a.md'')
         = Inr fm
       \<and> js ''<p><p>new</p></p>''
         = convertCommonmarkToHtml exampleLib (convertCommonmarkToHtml exampleLib (body fm)))"
  using content_converted_again [OF read_unchanged_source]
    content_converted_again [OF read_changed_source]
  by simp




text \<open>
  C3. With a cached \<^verbatim>\<open>modified\<close> equal to the file's modification time
  (1500000000123 ms) the resolver parses the source again and does not count a skip,
  because \<^verbatim>\<open>Date.parse\<close> of the \<^verbatim>\<open>Date\<close> object drops the 123 ms. With a file modified at
  1500000000999 ms and a cached \<^verbatim>\<open>modified\<close> of 1500000000000 ms, which differ, it skips
  the parse and keeps the cached content.
\<close>

theorem reparse_at_equal_stamps:
  "getModifiedDate (exampleWorld 1500000000123 1500000001000) (js ''a.md'')
     = Inr (DateObj 1500000000123)
   \<and> modified (overlayCached (cacheByFilename [cachedPage 1500000000123 1500000001000])
       (js ''a.md'')) = IsoString 1500000000123
   \<and> refreshPage exampleLib (exampleWorld 1500000000123 1500000001000) (js ''a.md'')
       (overlayCached (cacheByFilename [cachedPage 1500000000123 1500000001000]) (js ''a.md''))
     = Inr (set_modified (DateObj 1500000000123)
         (set_content (js ''<p>new</p>'') (cachedPage 1500000000123 1500000001000)), False)
   \<and> refreshPage exampleLib (exampleWorld 1500000000999 1500000001000) (js ''a.md'')
       (overlayCached (cacheByFilename [cachedPage 1500000000000 1500000001000]) (js ''a.md''))
     = Inr (cachedPage 1500000000000 1500000001000, True)"
  by (simp add: read_eval fs_eval Let_def exampleLib_def cachedPage_def exampleWorld_def
      cacheByFilename_def js_simps)

text \<open>
  The staleness test in general, for a cached \<^verbatim>\<open>modified\<close> read from the cache file: the
  parse is skipped exactly when the file's modification time, cut to the second, is the
  cached instant.
\<close>

theorem staleness_test_compares_seconds:
  assumes "getModifiedDate w file = Inr (DateObj t)" and "modified page = IsoString c"
  shows "(\<exists>q. refreshPage l w file page = Inr (q, True)) \<longleftrightarrow> t div 1000 * 1000 = c"
  using assms
  by (auto simp add: refreshPage_def js_ne_def Date_parse_def Let_def split: sum.splits)

theorem staleness_test_compares_seconds_witness:
  "(\<exists>q. refreshPage exampleLib (exampleWorld 1500000000123 1500000001000) (js ''a.md'')
          (cachedPage 1500000000123 1500000001000) = Inr (q, True))
     = ((1500000000123::int) div 1000 * 1000 = 1500000000123)"
proof (rule staleness_test_compares_seconds)
  show "getModifiedDate (exampleWorld 1500000000123 1500000001000) (js ''a.md'')
      = Inr (DateObj 1500000000123)"
    by (simp add: fs_eval exampleWorld_def js_simps)
  show "modified (cachedPage 1500000000123 1500000001000) = IsoString 1500000000123"
    by (simp add: cachedPage_def)
qed

section \<open>Verification of the page writer\<close>

lemmas write_eval = writePage_def skipWrite_def renderPage_def getTemplateDir_def endsWith_def
  Date_parse_def js_eq_def js_ge_def set_writeTime_def Let_def

text \<open>
  C5. The output file exists, its modification time (1500000001123 ms) equals the
  page's recorded \<^verbatim>\<open>writeTime\<close> and is not older than the page's \<^verbatim>\<open>modified\<close>; the write
  is not skipped, and the page is written again. With an output modified at
  1500000001999 ms and a recorded \<^verbatim>\<open>writeTime\<close> of 1500000001000 ms, which differ, the
  write is skipped.
\<close>

theorem write_at_equal_stamps:
  "isFile (exampleWorld 1500000000000 1500000001123) (js ''a.html'')
   \<and> getModifiedDate (exampleWorld 1500000000000 1500000001123) (js ''a.html'')
       = Inr (DateObj 1500000001123)
   \<and> writeTime (cachedPage 1500000000000 1500000001123) = IsoString 1500000001123
   \<and> modified (cachedPage 1500000000000 1500000001123) = IsoString 1500000000000
   \<and> skipWrite (exampleWorld 1500000000000 1500000001123)
       (cachedPage 1500000000000 1500000001123) (js ''a.html'') = False
   \<and> (case writePage exampleLib (exampleSite False) (exampleWorld 1500000000000 1500000001123)
         (cachedPage 1500000000000 1500000001123) of
         Inl e \<Rightarrow> False
       | Inr (p, w', skipped) \<Rightarrow> \<not> skipped \<and> writeTime p = DateObj 1600000000456)
   \<and> skipWrite (exampleWorld 1500000000000 1500000001999)
       (cachedPage 1500000000000 1500000001000) (js ''a.html'') = True"
  by (simp add: write_eval fs_eval exampleWorld_def cachedPage_def exampleSite_def mainSite_def
      exampleLib_def js_simps)

text \<open>
  The skip test in general, for an existing output file and a page whose \<^verbatim>\<open>writeTime\<close>
  and \<^verbatim>\<open>modified\<close> were read from the cache file: the write is skipped exactly when the
  output's modification time, cut to the second, is the recorded \<^verbatim>\<open>writeTime\<close> and is
  not before \<^verbatim>\<open>modified\<close>.
\<close>

theorem skip_test_compares_seconds:
  assumes "statSync w out = Some e" and "data e \<noteq> Directory"
    and "writeTime page = IsoString tw" and "modified page = IsoString tm"
  shows "skipWrite w page out \<longleftrightarrow> mtime e div 1000 * 1000 = tw \<and> tm \<le> mtime e div 1000 * 1000"
  using assms
  by (simp add: skipWrite_def isFile_def getModifiedDate_def Date_parse_def js_eq_def js_ge_def)

theorem skip_test_compares_seconds_witness:
  "skipWrite (exampleWorld 1500000000000 1500000001123)
       (cachedPage 1500000000000 1500000001123) (js ''a.html'')
     = (mtime \<lparr>mtime = 1500000001123, data = Text (js ''<p>old</p>'')\<rparr> div 1000 * 1000
          = 1500000001123
        \<and> 1500000000000
          \<le> mtime \<lparr>mtime = 1500000001123, data = Text (js ''<p>old</p>'')\<rparr> div 1000 * 1000)"
proof (rule skip_test_compares_seconds)
  show "statSync (exampleWorld 1500000000000 1500000001123) (js ''a.html'')
      = Some \<lparr>mtime = 1500000001123, data = Text (js ''<p>old</p>'')\<rparr>"
    by (simp add: fs_eval exampleWorld_def js_simps)
  show "data \<lparr>mtime = 1500000001123, data = Text (js ''<p>old</p>'')\<rparr> \<noteq> Directory"
    by simp
  show "writeTime (cachedPage 1500000000000 1500000001123) = IsoString 1500000001123"
    by (simp add: cachedPage_def)
  show "modified (cachedPage 1500000000000 1500000001123) = IsoString 1500000000000"
    by (simp add: cachedPage_def)
qed




section \<open>Verification of processSite\<close>

text \<open>
  C2. \<^verbatim>\<open>main\<close> sets \<^verbatim>\<open>site.force\<close>, \<^verbatim>\<open>processSite\<close> tests \<^verbatim>\<open>site.forced\<close>: with the force
  flag set, a cache path configured and the cache file present, the cached record is
  appended to the pages, which were empty.
\<close>

theorem force_does_not_bypass_cache:
  "force (exampleSite True)
   \<and> isFile (exampleWorld 1500000000000 1500000001000) (cachedPages (exampleSite True))
   \<and> pages (exampleSite True) = []
   \<and> loadCache (exampleSite True) (exampleWorld 1500000000000 1500000001000)
       = Inr ((exampleSite True)\<lparr>pages := [cachedPage 1500000000000 1500000001000]\<rparr>)"
  by (simp add: loadCache_def exampleSite_def exampleWorld_def mainSite_def fs_eval js_simps)














end
